theory Spec2Isabelle
  imports Complex_Main "HOL-Library.Log_Nat"
begin

section \<open>Python values\<close>

text \<open>
  The client handles decoded JSON: \<^verbatim>\<open>None\<close>, booleans, integers, floats, strings, lists
  and dictionaries with string keys. A finite float is given by its value, a real number;
  the JSON decoder also produces the two infinities and the NaN. A dictionary is an
  association list; a lookup finds the first entry of a key.
\<close>

datatype pyfloat = Finite real | PosInf | NegInf | NaN

datatype pyval =
    PNone
  | PBool bool
  | PInt int
  | PFloat pyfloat
  | PStr string
  | PList "pyval list"
  | PDict "(string \<times> pyval) list"

text \<open>Python's truth value of an object, as used by \<^verbatim>\<open>if value:\<close> and \<^verbatim>\<open>if not msg:\<close>.\<close>

fun truthy :: "pyval \<Rightarrow> bool" where
  "truthy PNone = False"
| "truthy (PBool b) = b"
| "truthy (PInt n) = (n \<noteq> 0)"
| "truthy (PFloat f) = (f \<noteq> Finite 0)"
| "truthy (PStr s) = (s \<noteq> [])"
| "truthy (PList xs) = (xs \<noteq> [])"
| "truthy (PDict kvs) = (kvs \<noteq> [])"

text \<open>
  Exceptions are values. \<^verbatim>\<open>ServerException\<close> carries the three attributes that
  \<^verbatim>\<open>Client.on_result\<close> reads: \<^verbatim>\<open>error_message\<close>, \<^verbatim>\<open>error_result\<close> and
  \<^verbatim>\<open>recover_message\<close>.
\<close>

datatype error =
    KeyError string
  | TypeError
  | ValueError
  | OverflowError
  | NotImplementedError
  | ServerException string pyval pyval

text \<open>\<^verbatim>\<open>obj[key]\<close> with a string key: only a dictionary can be subscripted that way.\<close>

fun getitem :: "pyval \<Rightarrow> string \<Rightarrow> error + pyval" where
  "getitem (PDict kvs) k = (case map_of kvs k of None \<Rightarrow> Inl (KeyError k) | Some v \<Rightarrow> Inr v)"
| "getitem PNone k = Inl TypeError"
| "getitem (PBool b) k = Inl TypeError"
| "getitem (PInt n) k = Inl TypeError"
| "getitem (PFloat f) k = Inl TypeError"
| "getitem (PStr s) k = Inl TypeError"
| "getitem (PList xs) k = Inl TypeError"

text \<open>
  The builtin \<^verbatim>\<open>int(x)\<close>. A finite float is truncated towards zero, an infinity raises
  OverflowError and the NaN raises ValueError. On a string the builtin parses a decimal
  literal; that parser is passed in as \<^verbatim>\<open>str_int\<close> (\<^verbatim>\<open>None\<close> where the builtin raises
  ValueError).
\<close>

fun py_int :: "(string \<Rightarrow> int option) \<Rightarrow> pyval \<Rightarrow> error + int" where
  "py_int str_int (PInt n) = Inr n"
| "py_int str_int (PBool b) = Inr (if b then 1 else 0)"
| "py_int str_int (PFloat (Finite x)) = Inr (if x < 0 then \<lceil>x\<rceil> else \<lfloor>x\<rfloor>)"
| "py_int str_int (PFloat PosInf) = Inl OverflowError"
| "py_int str_int (PFloat NegInf) = Inl OverflowError"
| "py_int str_int (PFloat NaN) = Inl ValueError"
| "py_int str_int (PStr s) = (case str_int s of None \<Rightarrow> Inl ValueError | Some n \<Rightarrow> Inr n)"
| "py_int str_int PNone = Inl TypeError"
| "py_int str_int (PList xs) = Inl TypeError"
| "py_int str_int (PDict kvs) = Inl TypeError"

section \<open>The product of an integer and the float 0.001\<close>

text \<open>
  A float is an IEEE 754 double: 53 significant bits, results rounded to the nearest
  double, a tie to the one whose last bit is even. \<^verbatim>\<open>round53 m\<close> is the natural number
  with at most 53 significant bits that is nearest to \<^verbatim>\<open>m\<close>.
\<close>

definition round53 :: "nat \<Rightarrow> nat" where
  "round53 m =
     (let d = floorlog 2 m - 53; q = m div 2 ^ d; r = m mod 2 ^ d
      in (if 2 ^ d < 2 * r \<or> (2 * r = 2 ^ d \<and> odd q) then q + 1 else q) * 2 ^ d)"

text \<open>
  \<^verbatim>\<open>n * 0.001\<close> for an integer \<^verbatim>\<open>n\<close> first converts \<^verbatim>\<open>n\<close> to a float: the nearest
  double, an integer again, or OverflowError when that is beyond the largest double
  (from \<^verbatim>\<open>2 ** 1024 - 2 ** 970\<close> on).
\<close>

definition float_of_int :: "int \<Rightarrow> error + int" where
  "float_of_int n =
     (let m = round53 (nat \<bar>n\<bar>)
      in if 2 ^ 1024 \<le> m then Inl OverflowError else Inr (sgn n * int m))"

text \<open>
  The product of an integer-valued float \<^verbatim>\<open>f\<close> and the float \<^verbatim>\<open>0.001\<close>, which is the double
  \<^verbatim>\<open>1152921504606847 / 2 ** 60\<close>: the exact product rounded to the nearest double. The
  product is neither beyond the largest double nor below the normal range.
\<close>

definition float_times_milli :: "int \<Rightarrow> real" where
  "float_times_milli f =
     real_of_int (sgn f * int (round53 (nat \<bar>f\<bar> * 1152921504606847))) / 2 ^ 60"

section \<open>ClientData and ClientAPI.login\<close>

text \<open>
  The slots of \<^verbatim>\<open>ClientData\<close>. The constructor arguments are strings; the other slots
  are assigned from decoded server replies without any check, so they hold Python values.
\<close>

record ClientData =
  server :: string
  username :: string
  password :: string
  token :: pyval
  session :: pyval
  user_id :: pyval
  token_expires :: pyval

definition ClientData_init :: "string \<Rightarrow> string \<Rightarrow> string \<Rightarrow> ClientData" where
  "ClientData_init srv usr pwd =
     \<lparr> server = srv, username = usr, password = pwd, token = PStr [], session = PStr [],
       user_id = PStr [], token_expires = PNone \<rparr>"

definition credentials :: "ClientData \<Rightarrow> string \<times> string" where
  "credentials d = (username d, password d)"

text \<open>
  \<^verbatim>\<open>ClientAPI.login\<close>. The awaited call \<^verbatim>\<open>methods.login_sha256\<close> lives in another
  module; what it yields (a raised exception or the returned value \<^verbatim>\<open>res\<close>) is the first
  argument. The three assignments happen one after the other, so a missing key leaves the
  earlier assignments in place.
\<close>

definition ClientAPI_login :: "error + pyval \<Rightarrow> ClientData \<Rightarrow> (error + pyval) \<times> ClientData" where
  "ClientAPI_login reply d =
     (case reply of
        Inl e \<Rightarrow> (Inl e, d)
      | Inr res \<Rightarrow>
          (case getitem res ''token'' of
             Inl e \<Rightarrow> (Inl e, d)
           | Inr t \<Rightarrow>
               (let d1 = d\<lparr>token := t\<rparr> in
                case getitem res ''expires'' of
                  Inl e \<Rightarrow> (Inl e, d1)
                | Inr x \<Rightarrow>
                    (let d2 = d1\<lparr>token_expires := x\<rparr> in
                     case getitem res ''user_id'' of
                       Inl e \<Rightarrow> (Inl e, d2)
                     | Inr u \<Rightarrow> (Inr res, d2\<lparr>user_id := u\<rparr>)))))"

section \<open>Message kinds, callbacks and the state of a client\<close>

text \<open>
  Modelled from the spec: the enumeration \<^verbatim>\<open>RawMessageType\<close> is declared in
  \<^verbatim>\<open>unha2.model.base\<close>, which is not part of the sources at hand. Its members are the
  message kinds of the spec's MessageClassifier; the source names all of them except
  \<^verbatim>\<open>PONG\<close> and \<^verbatim>\<open>UNKNOWN\<close>.
\<close>

datatype raw_message_type =
    NONE | PING | PONG | CONNECTED | RESULT | READY
  | ADDED | CHANGED | UPDATED | REMOVED | FAILED | UNKNOWN

text \<open>
  The members of \<^verbatim>\<open>ChangedStreamMessage\<close> that the source names; every other member is
  \<^verbatim>\<open>OTHER_STREAM\<close>.
\<close>

datatype changed_stream_message =
    USERS | NOTIFY_USER | NOTIFY_ROOM | ROOM_MESSAGES | OTHER_STREAM

text \<open>
  A callback is either one of the five bound methods that \<^verbatim>\<open>EventClient.__init__\<close>
  registers, or a function of the application: its identity and whether it was declared
  with \<^verbatim>\<open>async def\<close>. Two callbacks are the same object exactly when they are equal here.
\<close>

datatype bound_method = M_added | M_failed | M_changed | M_updated | M_removed

datatype callback = Bound bound_method | PyFunc nat bool

fun iscoroutinefunction :: "callback \<Rightarrow> bool" where
  "iscoroutinefunction (Bound m) = False"
| "iscoroutinefunction (PyFunc n c) = c"

text \<open>What the body of an application callback may do to the client that called it.\<close>

datatype action = Add_cb string callback | Del_cb string callback | Fire string pyval

text \<open>
  What the event loop holds. \<^verbatim>\<open>Lambda a d\<close> is the closure \<^verbatim>\<open>lambda: cb(data)\<close>
  made by \<^verbatim>\<open>EventClient.event\<close>: it holds the cell \<^verbatim>\<open>a\<close> of the variable
  \<^verbatim>\<open>cb\<close>, not a callback, and reads the cell when it runs. (\<^verbatim>\<open>data\<close> is a cell too, but it
  is assigned once, when \<^verbatim>\<open>event\<close> is entered, so the closure is given its value.)
  \<^verbatim>\<open>CbTask cb d\<close> is the task of the coroutine \<^verbatim>\<open>cb(data)\<close>, made when
  \<^verbatim>\<open>ensure_future\<close> is called. The other handles are the tasks the client spawns for its
  own coroutines.
\<close>

datatype handle =
    Lambda nat pyval
  | CbTask callback pyval
  | DoConnectTask
  | SockSendConnect
  | SendPongTask
  | DoLoginTask
  | ParseTask pyval raw_message_type
  | OnErrorTask string pyval pyval
  | OnTooManyResume pyval
  | SendMessageTask pyval pyval

text \<open>
  Modelled from the spec: \<^verbatim>\<open>AsyncHolder\<close> (module \<^verbatim>\<open>unha2.holder\<close>) is not part of the
  sources at hand. It is the spec's CallCorrelator: a table of the calls in flight, each
  with the request that was sent, and for every call that was resolved the single value
  its waiter observes, a success value or a \<^verbatim>\<open>ServerError\<close> (kind, payload, original
  request).
\<close>

datatype completion = Success pyval | Failure string pyval pyval

record holder =
  pending :: "string \<rightharpoonup> pyval"
  completed :: "string \<rightharpoonup> completion"

datatype client_class = ClientC | EventClientC | OverrideClientC

text \<open>
  The attributes of a client together with the part of the asyncio event loop it acts on:
  \<^verbatim>\<open>ready\<close> is the loop's FIFO of scheduled handles (\<^verbatim>\<open>call_soon\<close>), \<^verbatim>\<open>timers\<close> the tasks
  suspended in \<^verbatim>\<open>asyncio.sleep\<close> with the delay they asked for, \<^verbatim>\<open>cells\<close> the closure
  cells allocated so far, and \<^verbatim>\<open>calls\<close> the log of the callback bodies that have run, with
  their argument. \<^verbatim>\<open>queue\<close> has the oldest message first.
\<close>

record client =
  cls :: client_class
  data :: ClientData
  holder :: holder
  queue :: "pyval list"
  stop_flag :: bool
  client_session :: "pyval option"
  callbacks :: "string \<rightharpoonup> callback list"
  cells :: "callback option list"
  ready :: "handle list"
  timers :: "(real \<times> handle) list"
  calls :: "(callback \<times> pyval) list"

text \<open>
  The code of the other modules, as far as the client calls it: the classifier
  \<^verbatim>\<open>parse.base.msg_type\<close>, \<^verbatim>\<open>parse.connected.parse\<close>, the two entry points of the
  holder, the outcome of the login call, the constructor \<^verbatim>\<open>ChangedStreamMessage(...)\<close>, the
  bodies of the application's callbacks, the string case of \<^verbatim>\<open>int(...)\<close>, and the value of
  \<^verbatim>\<open>ErrorType.TOO_MANY_REQUESTS\<close>.
\<close>

record env =
  msg_type :: "pyval \<Rightarrow> raw_message_type"
  connected_parse :: "pyval \<Rightarrow> error + pyval"
  recv_result :: "holder \<Rightarrow> pyval \<Rightarrow> error option \<times> holder"
  recv_ready :: "holder \<Rightarrow> pyval \<Rightarrow> error option \<times> holder"
  login_reply :: "error + pyval"
  changed_stream :: "pyval \<Rightarrow> error + changed_stream_message"
  body :: "nat \<Rightarrow> pyval \<Rightarrow> action list"
  str_int :: "string \<Rightarrow> int option"
  TOO_MANY_REQUESTS :: string

definition empty_holder :: holder where
  "empty_holder = \<lparr> pending = Map.empty, completed = Map.empty \<rparr>"

definition EventClient_callbacks :: "string \<rightharpoonup> callback list" where
  "EventClient_callbacks =
     [''added'' \<mapsto> [Bound M_added], ''failed'' \<mapsto> [Bound M_failed],
      ''changed'' \<mapsto> [Bound M_changed], ''updated'' \<mapsto> [Bound M_updated],
      ''removed'' \<mapsto> [Bound M_removed]]"

definition Client_init :: "client_class \<Rightarrow> string \<Rightarrow> string \<Rightarrow> string \<Rightarrow> client" where
  "Client_init c srv usr pwd =
     \<lparr> cls = c, data = ClientData_init srv usr pwd, holder = empty_holder, queue = [],
       stop_flag = False, client_session = None,
       callbacks = (if c = EventClientC then EventClient_callbacks else Map.empty),
       cells = [], ready = [], timers = [], calls = [] \<rparr>"

section \<open>EventClient: the listener registry and event\<close>

definition call_soon :: "handle \<Rightarrow> client \<Rightarrow> client" where
  "call_soon h st = st\<lparr>ready := ready st @ [h]\<rparr>"

text \<open>
  \<^verbatim>\<open>self.callbacks[name]\<close>: the dictionary is a \<^verbatim>\<open>defaultdict(list)\<close>, so reading a name
  that has no entry creates an empty list for it.
\<close>

definition callbacks_getitem :: "string \<Rightarrow> client \<Rightarrow> callback list \<times> client" where
  "callbacks_getitem name st =
     (case callbacks st name of
        None \<Rightarrow> ([], st\<lparr>callbacks := (callbacks st)(name \<mapsto> [])\<rparr>)
      | Some xs \<Rightarrow> (xs, st))"

text \<open>The listeners of a name, as every read through the dictionary sees them.\<close>

definition listeners :: "client \<Rightarrow> string \<Rightarrow> callback list" where
  "listeners st name = (case callbacks st name of None \<Rightarrow> [] | Some xs \<Rightarrow> xs)"

text \<open>
  The loop of \<^verbatim>\<open>event\<close>: each iteration assigns the loop variable \<^verbatim>\<open>cb\<close> (the cell
  \<^verbatim>\<open>a\<close>) and then schedules either the task of \<^verbatim>\<open>cb(data)\<close> or the closure.
\<close>

fun event_for :: "nat \<Rightarrow> pyval \<Rightarrow> callback list \<Rightarrow> client \<Rightarrow> client" where
  "event_for a d [] st = st"
| "event_for a d (cb # cbs) st =
     event_for a d cbs
       (let st1 = st\<lparr>cells := (cells st)[a := Some cb]\<rparr> in
        if iscoroutinefunction cb then call_soon (CbTask cb d) st1
        else call_soon (Lambda a d) st1)"

definition EventClient_event :: "string \<Rightarrow> pyval \<Rightarrow> client \<Rightarrow> client" where
  "EventClient_event name d st =
     (let (xs, st1) = callbacks_getitem name st;
          a = length (cells st1);
          st2 = st1\<lparr>cells := cells st1 @ [None]\<rparr>
      in event_for a d xs st2)"

definition add_cb :: "string \<Rightarrow> callback \<Rightarrow> client \<Rightarrow> client" where
  "add_cb name cb st =
     (let (xs, st1) = callbacks_getitem name st
      in st1\<lparr>callbacks := (callbacks st1)(name \<mapsto> xs @ [cb])\<rparr>)"

text \<open>
  \<^verbatim>\<open>list.remove\<close> deletes the first element equal to its argument and raises ValueError
  when there is none; \<^verbatim>\<open>del_cb\<close> turns the exception into \<^verbatim>\<open>False\<close>.
\<close>

definition del_cb :: "string \<Rightarrow> callback \<Rightarrow> client \<Rightarrow> bool \<times> client" where
  "del_cb name cb st =
     (let (xs, st1) = callbacks_getitem name st
      in if cb \<in> set xs
         then (True, st1\<lparr>callbacks := (callbacks st1)(name \<mapsto> remove1 cb xs)\<rparr>)
         else (False, st1))"

definition EventClient_parse :: "pyval \<Rightarrow> raw_message_type \<Rightarrow> client \<Rightarrow> client" where
  "EventClient_parse msg msgtype st =
     (if msgtype = ADDED then EventClient_event ''added'' msg st
      else if msgtype = CHANGED then EventClient_event ''changed'' msg st
      else if msgtype = UPDATED then EventClient_event ''updated'' msg st
      else if msgtype = REMOVED then EventClient_event ''removed'' msg st
      else if msgtype = FAILED then EventClient_event ''failed'' msg st
      else st)"

text \<open>
  \<^verbatim>\<open>EventClient.changed\<close>. It runs as a callback of the event loop, which catches and
  reports what a callback raises: a message without \<^verbatim>\<open>collection\<close>, or with a value that
  is no member of the enumeration, fires nothing.
\<close>

definition EventClient_changed :: "env \<Rightarrow> pyval \<Rightarrow> client \<Rightarrow> client" where
  "EventClient_changed E msg st =
     (case getitem msg ''collection'' of
        Inl e \<Rightarrow> st
      | Inr c \<Rightarrow>
          (case changed_stream E c of
             Inl e \<Rightarrow> st
           | Inr USERS \<Rightarrow> EventClient_event ''users'' msg st
           | Inr NOTIFY_USER \<Rightarrow> EventClient_event ''notify_user'' msg st
           | Inr NOTIFY_ROOM \<Rightarrow> EventClient_event ''notify_room'' msg st
           | Inr ROOM_MESSAGES \<Rightarrow> EventClient_event ''room_message'' msg st
           | Inr OTHER_STREAM \<Rightarrow> st))"

section \<open>Running what the event loop holds\<close>

fun do_action :: "action \<Rightarrow> client \<Rightarrow> client" where
  "do_action (Add_cb name cb) st = add_cb name cb st"
| "do_action (Del_cb name cb) st = snd (del_cb name cb st)"
| "do_action (Fire name d) st = EventClient_event name d st"

text \<open>
  Running the body of a callback: the call is logged, then the body acts on the client.
  Four of the bound methods are \<^verbatim>\<open>pass\<close>. An \<^verbatim>\<open>async def\<close> callback is run up to its first
  suspension; \<^verbatim>\<open>body\<close> gives what it does until then.
\<close>

definition invoke :: "env \<Rightarrow> callback \<Rightarrow> pyval \<Rightarrow> client \<Rightarrow> client" where
  "invoke E cb d st =
     (let st1 = st\<lparr>calls := calls st @ [(cb, d)]\<rparr> in
      case cb of
        Bound m \<Rightarrow> (if m = M_changed then EventClient_changed E d st1 else st1)
      | PyFunc n c \<Rightarrow> fold do_action (body E n d) st1)"

definition cell_get :: "nat \<Rightarrow> client \<Rightarrow> callback option" where
  "cell_get a st = (if a < length (cells st) then cells st ! a else None)"

text \<open>\<^verbatim>\<open>ClientAPI.send_msg\<close> spawns the task of \<^verbatim>\<open>methods.send_message\<close>.\<close>

definition send_msg :: "pyval \<Rightarrow> pyval \<Rightarrow> client \<Rightarrow> client" where
  "send_msg room_id text st = call_soon (SendMessageTask room_id text) st"

text \<open>
  \<^verbatim>\<open>OverrideClient.on_too_many_requests\<close> up to its \<^verbatim>\<open>await asyncio.sleep(timeout)\<close>: the
  coroutine computes the delay in seconds, the float product of the integer and
  \<^verbatim>\<open>0.001\<close>, and is suspended; the rest of it is the handle \<^verbatim>\<open>OnTooManyResume\<close>, which
  needs only \<^verbatim>\<open>recover_message\<close>.
\<close>

definition on_too_many_requests :: "env \<Rightarrow> pyval \<Rightarrow> pyval \<Rightarrow> client \<Rightarrow> error option \<times> client" where
  "on_too_many_requests E error_result recover_message st =
     (case getitem error_result ''error'' of
        Inl e \<Rightarrow> (Some e, st)
      | Inr er \<Rightarrow>
          (case getitem er ''details'' of
             Inl e \<Rightarrow> (Some e, st)
           | Inr det \<Rightarrow>
               (case getitem det ''timeToReset'' of
                  Inl e \<Rightarrow> (Some e, st)
                | Inr v \<Rightarrow>
                    (case py_int (str_int E) v of
                       Inl e \<Rightarrow> (Some e, st)
                     | Inr n \<Rightarrow>
                         (case float_of_int n of
                            Inl e \<Rightarrow> (Some e, st)
                          | Inr f \<Rightarrow>
                              (let timeout = float_times_milli f in
                               (None, st\<lparr>timers := timers st
                                          @ [(timeout, OnTooManyResume recover_message)]\<rparr>)))))))"

text \<open>The rest of \<^verbatim>\<open>on_too_many_requests\<close>, run when the sleep is over.\<close>

definition on_too_many_resume :: "pyval \<Rightarrow> client \<Rightarrow> error option \<times> client" where
  "on_too_many_resume recover_message st =
     (case getitem recover_message ''rid'' of
        Inl e \<Rightarrow> (Some e, st)
      | Inr room_id \<Rightarrow>
          (case getitem recover_message ''msg'' of
             Inl e \<Rightarrow> (Some e, st)
           | Inr text \<Rightarrow> (None, send_msg room_id text st)))"

definition OverrideClient_on_error :: "env \<Rightarrow> string \<Rightarrow> pyval \<Rightarrow> pyval \<Rightarrow> client \<Rightarrow> error option \<times> client" where
  "OverrideClient_on_error E errortype error_result recover_message st =
     (if errortype = TOO_MANY_REQUESTS E
      then on_too_many_requests E error_result recover_message st
      else (None, st))"

text \<open>\<^verbatim>\<open>self.on_error(...)\<close>: only \<^verbatim>\<open>OverrideClient\<close> overrides the method of \<^verbatim>\<open>Client\<close>.\<close>

definition on_error :: "env \<Rightarrow> string \<Rightarrow> pyval \<Rightarrow> pyval \<Rightarrow> client \<Rightarrow> error option \<times> client" where
  "on_error E errortype error_result recover_message st =
     (if cls st = OverrideClientC
      then OverrideClient_on_error E errortype error_result recover_message st
      else (Some NotImplementedError, st))"

text \<open>
  \<^verbatim>\<open>do_login\<close>: the login, and in \<^verbatim>\<open>EventClient\<close> the event \<^verbatim>\<open>logged_in\<close> after it. The
  reply of the server is applied in one step.
\<close>

definition do_login :: "env \<Rightarrow> client \<Rightarrow> error option \<times> client" where
  "do_login E st =
     (let (r, d) = ClientAPI_login (login_reply E) (data st);
          st1 = st\<lparr>data := d\<rparr>
      in case r of
           Inl e \<Rightarrow> (Some e, st1)
         | Inr res \<Rightarrow>
             (None, if cls st = EventClientC then EventClient_event ''logged_in'' res st1 else st1))"

text \<open>\<^verbatim>\<open>ClientAPI.connect\<close> spawns the task that sends the handshake.\<close>

definition Client_do_connect :: "client \<Rightarrow> client" where
  "Client_do_connect st = call_soon SockSendConnect st"

definition EventClient_do_connect :: "client \<Rightarrow> client" where
  "EventClient_do_connect st =
     call_soon SockSendConnect (EventClient_event ''connection_established'' PNone st)"

text \<open>
  One handle of the ready queue. What a task or callback raises is reported by the loop
  and changes nothing else. The closure reads its cell: if the cell holds a coroutine
  function, the call only makes a coroutine object that nothing runs. The task of
  \<^verbatim>\<open>self.parse(msg, msgtype)\<close> runs \<^verbatim>\<open>EventClient.parse\<close> in an \<^verbatim>\<open>EventClient\<close>; in
  \<^verbatim>\<open>Client\<close> it raises NotImplementedError, and in \<^verbatim>\<open>OverrideClient\<close> every handler it can
  reach is \<^verbatim>\<open>pass\<close>, so in both the client is left as it was. The tasks of the transport
  and of \<^verbatim>\<open>unha2.methods\<close> belong to other modules and are left as they are.
\<close>

fun run_handle :: "env \<Rightarrow> handle \<Rightarrow> client \<Rightarrow> client" where
  "run_handle E (Lambda a d) st =
     (case cell_get a st of
        None \<Rightarrow> st
      | Some cb \<Rightarrow> if iscoroutinefunction cb then st else invoke E cb d st)"
| "run_handle E (CbTask cb d) st = invoke E cb d st"
| "run_handle E DoConnectTask st = Client_do_connect st"
| "run_handle E DoLoginTask st = snd (do_login E st)"
| "run_handle E (ParseTask msg msgtype) st =
     (if cls st = EventClientC then EventClient_parse msg msgtype st else st)"
| "run_handle E (OnErrorTask et er rm) st = snd (on_error E et er rm st)"
| "run_handle E (OnTooManyResume rm) st = snd (on_too_many_resume rm st)"
| "run_handle E SockSendConnect st = st"
| "run_handle E SendPongTask st = st"
| "run_handle E (SendMessageTask room_id text) st = st"

text \<open>
  One iteration of the event loop runs the handles that are ready when it starts, oldest
  first; what they schedule waits for the next iteration.
\<close>

fun run_n :: "env \<Rightarrow> nat \<Rightarrow> client \<Rightarrow> client" where
  "run_n E 0 st = st"
| "run_n E (Suc n) st =
     (case ready st of
        [] \<Rightarrow> st
      | h # hs \<Rightarrow> run_n E n (run_handle E h (st\<lparr>ready := hs\<rparr>)))"

definition run_once :: "env \<Rightarrow> client \<Rightarrow> client" where
  "run_once E st = run_n E (length (ready st)) st"

section \<open>Client: the stop property and handler_loop\<close>

text \<open>The setter of \<^verbatim>\<open>Client.stop\<close>. The queue is unbounded, so \<^verbatim>\<open>put_nowait\<close> cannot fail.\<close>

definition Client_stop_setter :: "pyval \<Rightarrow> client \<Rightarrow> client" where
  "Client_stop_setter v st =
     (if truthy v then (st\<lparr>stop_flag := True\<rparr>)\<lparr>queue := queue st @ [PNone]\<rparr> else st)"

definition Client_on_result :: "env \<Rightarrow> pyval \<Rightarrow> client \<Rightarrow> error option \<times> client" where
  "Client_on_result E msg st =
     (let (r, h) = recv_result E (holder st) msg;
          st1 = st\<lparr>holder := h\<rparr>
      in case r of
           None \<Rightarrow> (None, st1)
         | Some e \<Rightarrow>
             (case e of
                ServerException em er rm \<Rightarrow> (None, call_soon (OnErrorTask em er rm) st1)
              | _ \<Rightarrow> (Some e, st1)))"

text \<open>
  The body of the loop for a message that is not skipped. In \<^verbatim>\<open>EventClient\<close>,
  \<^verbatim>\<open>do_connect\<close> is a plain method: \<^verbatim>\<open>self.do_connect()\<close> runs it and yields \<^verbatim>\<open>None\<close>, which
  \<^verbatim>\<open>ensure_future\<close> rejects with TypeError.
\<close>

definition route :: "env \<Rightarrow> pyval \<Rightarrow> client \<Rightarrow> error option \<times> client" where
  "route E msg st =
     (let msgtype = msg_type E msg in
      if msgtype = NONE then
        (if cls st = EventClientC then (Some TypeError, EventClient_do_connect st)
         else (None, call_soon DoConnectTask st))
      else if msgtype = PING then (None, call_soon SendPongTask st)
      else if msgtype = CONNECTED then
        (case connected_parse E msg of
           Inl e \<Rightarrow> (Some e, st)
         | Inr r \<Rightarrow>
             (case getitem r ''session'' of
                Inl e \<Rightarrow> (Some e, st)
              | Inr s \<Rightarrow> (None, call_soon DoLoginTask (st\<lparr>client_session := Some s\<rparr>))))
      else if msgtype = RESULT then Client_on_result E msg st
      else if msgtype = READY then
        (let (r, h) = recv_ready E (holder st) msg in (r, st\<lparr>holder := h\<rparr>))
      else (None, call_soon (ParseTask msg msgtype) st))"

text \<open>
  How a run of \<^verbatim>\<open>handler_loop\<close> ends: the loop returned, it is suspended in
  \<^verbatim>\<open>await self._queue.get()\<close> on an empty queue, or an exception left it.
\<close>

datatype outcome = Returned client | Blocked client | Raised error client

lemma event_for_queue: "queue (event_for a d xs st) = queue st"
  by (induction xs arbitrary: st) (simp_all add: call_soon_def Let_def)

lemma EventClient_event_queue: "queue (EventClient_event name d st) = queue st"
  by (simp add: EventClient_event_def callbacks_getitem_def event_for_queue split: option.splits)

lemma route_queue: "queue (snd (route E msg st)) = queue st"
  by (simp add: route_def Client_on_result_def EventClient_do_connect_def call_soon_def Let_def
        EventClient_event_queue split: sum.splits option.splits prod.splits error.splits)

text \<open>
  \<^verbatim>\<open>handler_loop\<close> is the loop from its head, the test of \<^verbatim>\<open>self.stop\<close>;
  \<^verbatim>\<open>handler_get\<close> is the loop from \<^verbatim>\<open>await self._queue.get()\<close>, where a suspended loop
  is woken. The get takes the oldest message and does not suspend while there is one.
\<close>

function handler_loop :: "env \<Rightarrow> client \<Rightarrow> outcome"
  and handler_get :: "env \<Rightarrow> client \<Rightarrow> outcome" where
  "handler_loop E st = (if stop_flag st then Returned st else handler_get E st)"
| "handler_get E st =
     (case queue st of
        [] \<Rightarrow> Blocked st
      | msg # q \<Rightarrow>
          (let st1 = st\<lparr>queue := q\<rparr> in
           if \<not> truthy msg then handler_loop E st1
           else (case route E msg st1 of
                   (r, st2) \<Rightarrow>
                     (case r of
                        Some e \<Rightarrow> Raised e st2
                      | None \<Rightarrow> handler_loop E st2))))"
  by pat_completeness auto
termination
proof (relation "measure (\<lambda>x. case x of Inl (E, st) \<Rightarrow> 2 * length (queue st) + 1
                                      | Inr (E, st) \<Rightarrow> 2 * length (queue st))")
  show "wf (measure (\<lambda>x. case x of Inl (E, st) \<Rightarrow> 2 * length (queue st) + 1
                                  | Inr (E, st) \<Rightarrow> 2 * length (queue st)))"
    by simp
next
  fix E :: env and st :: client
  show "(Inr (E, st), Inl (E, st)) \<in> measure (\<lambda>x. case x of Inl (E, st) \<Rightarrow> 2 * length (queue st) + 1
                                  | Inr (E, st) \<Rightarrow> 2 * length (queue st))"
    by simp
next
  fix E :: env and st :: client and msg q st1
  assume "queue st = msg # q" "st1 = st\<lparr>queue := q\<rparr>"
  then show "(Inl (E, st1), Inr (E, st)) \<in> measure (\<lambda>x. case x of Inl (E, st) \<Rightarrow> 2 * length (queue st) + 1
                                  | Inr (E, st) \<Rightarrow> 2 * length (queue st))"
    by simp
next
  fix E :: env and st :: client and msg q st1 x r st2
  assume a: "queue st = msg # q" "st1 = st\<lparr>queue := q\<rparr>" "(r, st2) = route E msg st1"
  from a(3) have "queue st2 = queue st1"
    using route_queue [of E msg st1] by (metis snd_conv)
  with a show "(Inl (E, st2), Inr (E, st)) \<in> measure (\<lambda>x. case x of Inl (E, st) \<Rightarrow> 2 * length (queue st) + 1
                                  | Inr (E, st) \<Rightarrow> 2 * length (queue st))"
    by simp
qed

declare handler_loop.simps [simp del]
declare handler_get.simps [simp del]

section \<open>The holder, from the spec\<close>

text \<open>
  Modelled from the spec: \<^verbatim>\<open>AsyncHolder.recv_result\<close> (module \<^verbatim>\<open>unha2.holder\<close>), the
  spec's \<^verbatim>\<open>resolveSuccess\<close> and \<^verbatim>\<open>resolveFailure\<close>. A result for an id that is pending
  fills the slot of that call and removes the entry; a result for an id that is not pending
  is reported and dropped. A failure is also raised to the caller of \<^verbatim>\<open>recv_result\<close> as
  the \<^verbatim>\<open>ServerException\<close> that \<^verbatim>\<open>Client.on_result\<close> catches, with the kind, the payload
  and the original request. Which fields of a message hold the id and the error is the
  business of the message parser: \<^verbatim>\<open>decode\<close> gives the id and, for a message with an
  error payload, the kind of the error.
\<close>

definition resolveSuccess :: "string \<Rightarrow> pyval \<Rightarrow> holder \<Rightarrow> error option \<times> holder" where
  "resolveSuccess i v h =
     (case pending h i of
        None \<Rightarrow> (None, h)
      | Some req \<Rightarrow>
          (None, h\<lparr>pending := (pending h)(i := None), completed := (completed h)(i \<mapsto> Success v)\<rparr>))"

definition resolveFailure :: "string \<Rightarrow> string \<Rightarrow> pyval \<Rightarrow> holder \<Rightarrow> error option \<times> holder" where
  "resolveFailure i kind payload h =
     (case pending h i of
        None \<Rightarrow> (None, h)
      | Some req \<Rightarrow>
          (Some (ServerException kind payload req),
           h\<lparr>pending := (pending h)(i := None),
             completed := (completed h)(i \<mapsto> Failure kind payload req)\<rparr>))"

definition AsyncHolder_recv_result ::
    "(pyval \<Rightarrow> string \<times> string option) \<Rightarrow> holder \<Rightarrow> pyval \<Rightarrow> error option \<times> holder" where
  "AsyncHolder_recv_result decode h msg =
     (case decode msg of
        (i, None) \<Rightarrow> resolveSuccess i msg h
      | (i, Some kind) \<Rightarrow> resolveFailure i kind msg h)"

section \<open>Concrete clients\<close>

text \<open>
  An environment in which the application function 0 registers the functions 1 and 2 under
  the event \<^verbatim>\<open>message\<close>, and every other application function does nothing; results carry
  their id under \<^verbatim>\<open>id\<close> and the kind of their error under \<^verbatim>\<open>error\<close>.
\<close>

definition example_decode :: "pyval \<Rightarrow> string \<times> string option" where
  "example_decode msg =
     (case getitem msg ''id'' of
        Inr (PStr i) \<Rightarrow> (i, (case getitem msg ''error'' of Inr (PStr k) \<Rightarrow> Some k | _ \<Rightarrow> None))
      | _ \<Rightarrow> ([], None))"

definition example_env :: env where
  "example_env =
     \<lparr> msg_type = (\<lambda>msg. UNKNOWN),
       connected_parse = (\<lambda>msg. Inr msg),
       recv_result = AsyncHolder_recv_result example_decode,
       recv_ready = (\<lambda>h msg. (None, h)),
       login_reply = Inl ValueError,
       changed_stream = (\<lambda>v. Inl ValueError),
       body = (\<lambda>n d. if n = 0 then [Add_cb ''message'' (PyFunc 1 False),
                                     Add_cb ''message'' (PyFunc 2 False)] else []),
       str_int = (\<lambda>s. None),
       TOO_MANY_REQUESTS = ''too-many-requests'' \<rparr>"

definition example_client :: "client_class \<Rightarrow> client" where
  "example_client c = Client_init c ''chat.example.org'' ''bot'' ''secret''"

text \<open>Two plain functions registered under one name.\<close>

definition two_listeners :: client where
  "two_listeners =
     add_cb ''message'' (PyFunc 2 False)
       (add_cb ''message'' (PyFunc 1 False) (example_client EventClientC))"

text \<open>One plain function, the one that registers two more when it runs.\<close>

definition one_listener :: client where
  "one_listener = add_cb ''message'' (PyFunc 0 False) (example_client EventClientC)"

definition example_login_result :: pyval where
  "example_login_result =
     PDict [(''token'', PStr ''tok''), (''expires'', PInt 1700000000),
            (''user_id'', PStr ''uid''), (''session'', PStr ''sess'')]"

definition example_error_result :: pyval where
  "example_error_result =
     PDict [(''id'', PStr ''42''), (''error'', PDict [(''details'', PDict [(''timeToReset'', PInt 2000)])])]"

text \<open>An integer that is too large for a float, and an error result that carries it.\<close>

definition too_large :: int where
  "too_large = 2 ^ 1024"

definition example_overflow_result :: pyval where
  "example_overflow_result =
     PDict [(''id'', PStr ''42''), (''error'', PDict [(''details'', PDict [(''timeToReset'', PInt too_large)])])]"

definition example_recover_message :: pyval where
  "example_recover_message = PDict [(''rid'', PStr ''r1''), (''msg'', PStr ''hi'')]"

section \<open>What one pass of event invokes\<close>

text \<open>
  The handle that \<^verbatim>\<open>event\<close> schedules for one listener, and the callback bodies that run
  when that handle is executed while the cell of the loop variable holds \<^verbatim>\<open>c\<close>.
\<close>

definition sched :: "nat \<Rightarrow> pyval \<Rightarrow> callback \<Rightarrow> handle" where
  "sched a d cb = (if iscoroutinefunction cb then CbTask cb d else Lambda a d)"

definition invoked_by :: "callback \<Rightarrow> pyval \<Rightarrow> callback \<Rightarrow> (callback \<times> pyval) list" where
  "invoked_by c d cb =
     (if iscoroutinefunction cb then [(cb, d)]
      else if iscoroutinefunction c then [] else [(c, d)])"

text \<open>
  \<^verbatim>\<open>grows st st'\<close>: from \<^verbatim>\<open>st\<close> to \<^verbatim>\<open>st'\<close> no callback body ran, and the ready queue and
  the cells were only extended at their end.
\<close>

definition grows :: "client \<Rightarrow> client \<Rightarrow> bool" where
  "grows st st' =
     (calls st' = calls st \<and> take (length (ready st)) (ready st') = ready st \<and>
      length (ready st) \<le> length (ready st') \<and>
      take (length (cells st)) (cells st') = cells st \<and>
      length (cells st) \<le> length (cells st'))"

section \<open>The listener registry\<close>

lemma del_cb_absent:
  assumes "cb \<notin> set (listeners st name)"
  shows "fst (del_cb name cb st) = False"
    and "listeners (snd (del_cb name cb st)) n = listeners st n"
  using assms
  by (cases "callbacks st name"; simp add: del_cb_def listeners_def callbacks_getitem_def)+

lemma del_cb_present:
  assumes "cb \<in> set (listeners st name)"
  shows "fst (del_cb name cb st) = True"
    and "listeners (snd (del_cb name cb st)) name = remove1 cb (listeners st name)"
    and "n \<noteq> name \<Longrightarrow> listeners (snd (del_cb name cb st)) n = listeners st n"
  using assms
  by (cases "callbacks st name"; simp add: del_cb_def listeners_def callbacks_getitem_def)+

text \<open>
  C6. \<^verbatim>\<open>del_cb\<close> has no exceptional result. For a callback that is not registered under
  the name it returns \<^verbatim>\<open>False\<close> and the listeners of every name are what they were. For a
  callback that is registered it returns \<^verbatim>\<open>True\<close>, the list of the name loses the first
  occurrence of the callback and nothing else, and the listeners of every other name are
  what they were.
\<close>

theorem del_cb_removes_first_or_reports:
  "(cb \<notin> set (listeners st name) \<longrightarrow>
      fst (del_cb name cb st) = False \<and>
      (\<forall>n. listeners (snd (del_cb name cb st)) n = listeners st n)) \<and>
   (cb \<in> set (listeners st name) \<longrightarrow>
      fst (del_cb name cb st) = True \<and>
      (\<exists>ys zs. listeners st name = ys @ cb # zs \<and> cb \<notin> set ys \<and>
                listeners (snd (del_cb name cb st)) name = ys @ zs) \<and>
      (\<forall>n. n \<noteq> name \<longrightarrow> listeners (snd (del_cb name cb st)) n = listeners st n))"
proof (intro conjI impI allI)
  assume a: "cb \<in> set (listeners st name)"
  then obtain ys zs where s: "listeners st name = ys @ cb # zs" "cb \<notin> set ys"
    by (meson split_list_first)
  with del_cb_present(2) [OF a] have "listeners (snd (del_cb name cb st)) name = ys @ zs"
    by (simp add: remove1_append)
  with s show "\<exists>ys zs. listeners st name = ys @ cb # zs \<and> cb \<notin> set ys \<and>
                listeners (snd (del_cb name cb st)) name = ys @ zs"
    by blast
qed (simp_all add: del_cb_absent del_cb_present)

theorem del_cb_removes_first_or_reports_witness:
  "del_cb ''added'' (Bound M_added) (example_client EventClientC) =
     (True, (example_client EventClientC)
              \<lparr>callbacks := (callbacks (example_client EventClientC))(''added'' \<mapsto> [])\<rparr>) \<and>
   del_cb ''added'' (PyFunc 0 False) (example_client EventClientC) =
     (False, example_client EventClientC) \<and>
   listeners (snd (del_cb ''added'' (Bound M_added) (example_client EventClientC))) ''failed''
     = [Bound M_failed]"
  using del_cb_removes_first_or_reports [of "Bound M_added" "example_client EventClientC" "''added''"]
    del_cb_removes_first_or_reports [of "PyFunc 0 False" "example_client EventClientC" "''added''"]
  by (simp add: example_client_def Client_init_def EventClient_callbacks_def del_cb_def
      callbacks_getitem_def listeners_def)

section \<open>Messages of no recognised kind\<close>

text \<open>
  C8. \<^verbatim>\<open>EventClient.parse\<close> on a message whose kind is none of ADDED, CHANGED, UPDATED,
  REMOVED and FAILED takes no branch: it returns, and leaves the whole client as it was, so
  no event is fired and nothing is scheduled. The same holds for the task that
  \<^verbatim>\<open>handler_loop\<close> spawns for such a message.
\<close>

theorem EventClient_parse_unrecognised:
  "msgtype \<notin> {ADDED, CHANGED, UPDATED, REMOVED, FAILED} \<longrightarrow>
     EventClient_parse msg msgtype st = st \<and>
     run_handle E (ParseTask msg msgtype) st = st"
  by (simp add: EventClient_parse_def)

theorem EventClient_parse_unrecognised_witness:
  "UNKNOWN \<notin> {ADDED, CHANGED, UPDATED, REMOVED, FAILED} \<and>
   cls (example_client EventClientC) = EventClientC \<and>
   EventClient_parse (PDict [(''msg'', PStr ''nosub'')]) UNKNOWN (example_client EventClientC)
     = example_client EventClientC \<and>
   run_handle example_env (ParseTask (PDict [(''msg'', PStr ''nosub'')]) UNKNOWN)
       (example_client EventClientC) = example_client EventClientC"
  using EventClient_parse_unrecognised
    [of UNKNOWN "PDict [(''msg'', PStr ''nosub'')]" "example_client EventClientC" example_env]
  by (simp add: example_client_def Client_init_def)

section \<open>The stop property and the loop\<close>

lemma route_classifier:
  "truthy msg \<Longrightarrow> f msg = msg_type E msg \<Longrightarrow> route (E\<lparr>msg_type := f\<rparr>) msg st = route E msg st"
  by (simp add: route_def Client_on_result_def Let_def cong: if_cong sum.case_cong)

text \<open>
  A run of the loop depends on the classifier only through its values on truthy messages.
\<close>

lemma handler_classifier:
  "(\<forall>m. truthy m \<longrightarrow> f m = msg_type E m) \<Longrightarrow>
     handler_loop (E\<lparr>msg_type := f\<rparr>) st = handler_loop E st"
  "(\<forall>m. truthy m \<longrightarrow> f m = msg_type E m) \<Longrightarrow>
     handler_get (E\<lparr>msg_type := f\<rparr>) st = handler_get E st"
proof (induction E st and E st rule: handler_loop_handler_get.induct)
  case (1 E st)
  then show ?case by (simp add: handler_loop.simps)
next
  case (2 E st)
  show ?case
  proof (cases "queue st")
    case Nil
    then show ?thesis by (simp add: handler_get.simps)
  next
    case (Cons msg q)
    show ?thesis
    proof (cases "truthy msg")
      case False
      with Cons 2 show ?thesis by (simp add: handler_get.simps)
    next
      case True
      with 2(3) have r: "route (E\<lparr>msg_type := f\<rparr>) msg (st\<lparr>queue := q\<rparr>) = route E msg (st\<lparr>queue := q\<rparr>)"
        by (simp add: route_classifier)
      obtain r' st2 where rr: "route E msg (st\<lparr>queue := q\<rparr>) = (r', st2)"
        by (cases "route E msg (st\<lparr>queue := q\<rparr>)")
      show ?thesis
      proof (cases r')
        case None
        with 2(2) [OF Cons refl _ rr [symmetric]] True 2(3)
        have "handler_loop (E\<lparr>msg_type := f\<rparr>) st2 = handler_loop E st2"
          by simp
        with Cons True r rr None show ?thesis by (simp add: handler_get.simps)
      next
        case (Some e)
        with Cons True r rr show ?thesis by (simp add: handler_get.simps)
      qed
    qed
  qed
qed

text \<open>
  C9, as the claim states it, fails where the stop flag is set: the loop skips the falsy
  message and then returns, so it does not proceed to the next element of the queue. Here
  the flag is set and the queue holds the sentinel and one more message: the run ends with
  that message still in the queue, where a run from that message on would have routed it.
\<close>

theorem falsy_message_with_stop_set_counterexample:
  "\<not> truthy PNone \<and> truthy (PStr ''x'') \<and>
   handler_get example_env
       ((example_client ClientC)\<lparr>stop_flag := True, queue := [PNone, PStr ''x'']\<rparr>)
     = Returned ((example_client ClientC)\<lparr>stop_flag := True, queue := [PStr ''x'']\<rparr>) \<and>
   handler_get example_env ((example_client ClientC)\<lparr>stop_flag := True, queue := [PStr ''x'']\<rparr>)
     = Returned ((example_client ClientC)
                   \<lparr>stop_flag := True, queue := [], ready := [ParseTask (PStr ''x'') UNKNOWN]\<rparr>)"
  by (simp add: handler_get.simps handler_loop.simps route_def call_soon_def example_env_def
      example_client_def Client_init_def)

text \<open>
  C9, amended. A falsy message taken from the queue is skipped: the loop goes back to its
  head with the client unchanged apart from the message being gone, so nothing was routed
  and no handler ran. From there it takes the next element of the queue when the stop flag
  is not set, and returns, leaving the rest of the queue, when the flag is set. The
  classifier is never applied to a falsy message: whatever it would answer for one (for
  the sentinel \<^verbatim>\<open>None\<close> in particular), every run of the loop is the same.
\<close>

theorem falsy_message_skipped:
  "\<not> truthy msg \<longrightarrow>
     (queue st = msg # q \<longrightarrow>
        handler_get E st = handler_loop E (st\<lparr>queue := q\<rparr>) \<and>
        (\<not> stop_flag st \<longrightarrow> handler_get E st = handler_get E (st\<lparr>queue := q\<rparr>)) \<and>
        (stop_flag st \<longrightarrow> handler_get E st = Returned (st\<lparr>queue := q\<rparr>))) \<and>
     handler_loop (E\<lparr>msg_type := (msg_type E)(msg := t)\<rparr>) st' = handler_loop E st' \<and>
     handler_loop (E\<lparr>msg_type := (msg_type E)(PNone := t)\<rparr>) st' = handler_loop E st'"
proof (intro impI conjI)
  assume f: "\<not> truthy msg"
  show "handler_loop (E\<lparr>msg_type := (msg_type E)(msg := t)\<rparr>) st' = handler_loop E st'"
    using f by (intro handler_classifier(1)) auto
  show "handler_loop (E\<lparr>msg_type := (msg_type E)(PNone := t)\<rparr>) st' = handler_loop E st'"
    by (intro handler_classifier(1)) auto
  assume q: "queue st = msg # q"
  show "handler_get E st = handler_loop E (st\<lparr>queue := q\<rparr>)"
    using f q by (simp add: handler_get.simps)
  {
    assume "\<not> stop_flag st"
    then show "handler_get E st = handler_get E (st\<lparr>queue := q\<rparr>)"
      using f q by (simp add: handler_get.simps [of E st] handler_loop.simps)
  }
  {
    assume "stop_flag st"
    then show "handler_get E st = Returned (st\<lparr>queue := q\<rparr>)"
      using f q by (simp add: handler_get.simps [of E st] handler_loop.simps)
  }
qed

theorem falsy_message_skipped_witness:
  "\<not> truthy (PDict []) \<and>
   handler_get example_env ((example_client EventClientC)\<lparr>queue := [PDict [], PStr [], PNone]\<rparr>)
     = Blocked (example_client EventClientC) \<and>
   handler_get example_env
       ((example_client EventClientC)\<lparr>stop_flag := True, queue := [PNone, PStr ''x'']\<rparr>)
     = Returned ((example_client EventClientC)\<lparr>stop_flag := True, queue := [PStr ''x'']\<rparr>)"
proof -
  let ?c = "example_client EventClientC"
  let ?s = "?c\<lparr>stop_flag := True, queue := [PNone, PStr ''x'']\<rparr>"
  have q: "queue ?c = []" "\<not> stop_flag ?c"
    by (simp_all add: example_client_def Client_init_def)
  have 1: "handler_get example_env (?c\<lparr>queue := [PDict [], PStr [], PNone]\<rparr>)
             = handler_get example_env (?c\<lparr>queue := [PStr [], PNone]\<rparr>)"
    using falsy_message_skipped [of "PDict []" "?c\<lparr>queue := [PDict [], PStr [], PNone]\<rparr>"
        "[PStr [], PNone]" example_env] q
    by (simp add: handler_loop.simps)
  have 2: "handler_get example_env (?c\<lparr>queue := [PStr [], PNone]\<rparr>)
             = handler_get example_env (?c\<lparr>queue := [PNone]\<rparr>)"
    using q by (simp add: handler_get.simps [of _ "?c\<lparr>queue := [PStr [], PNone]\<rparr>"] handler_loop.simps)
  have 3: "handler_get example_env (?c\<lparr>queue := [PNone]\<rparr>)
             = handler_get example_env (?c\<lparr>queue := []\<rparr>)"
    using q by (simp add: handler_get.simps [of _ "?c\<lparr>queue := [PNone]\<rparr>"] handler_loop.simps)
  have 4: "handler_get example_env (?c\<lparr>queue := []\<rparr>) = Blocked ?c"
    using q by (simp add: handler_get.simps)
  have 5: "handler_get example_env ?s = Returned (?c\<lparr>stop_flag := True, queue := [PStr ''x'']\<rparr>)"
    using falsy_message_skipped [of PNone ?s "[PStr ''x'']" example_env]
    by (simp add: handler_loop.simps)
  from 1 2 3 4 5 show ?thesis by simp
qed

text \<open>
  C3. Assigning a truthy value to \<^verbatim>\<open>stop\<close> sets the flag and appends \<^verbatim>\<open>None\<close> to the
  queue. A loop that was suspended on the empty queue is woken by that element and returns;
  the messages that arrived after the sentinel are still in the queue and everything else
  in the client is as the assignment left it: neither the sentinel nor a later message was
  routed.
\<close>

theorem stop_wakes_blocked_loop:
  "truthy v \<longrightarrow>
     Client_stop_setter v st = st\<lparr>stop_flag := True, queue := queue st @ [PNone]\<rparr> \<and>
     (queue st = [] \<longrightarrow>
        handler_get E st = Blocked st \<and>
        handler_get E ((Client_stop_setter v st)\<lparr>queue := queue (Client_stop_setter v st) @ later\<rparr>)
          = Returned (st\<lparr>stop_flag := True, queue := later\<rparr>))"
  by (simp add: Client_stop_setter_def handler_get.simps handler_loop.simps)

theorem stop_wakes_blocked_loop_witness:
  "truthy (PBool True) \<and> queue (example_client OverrideClientC) = [] \<and>
   handler_get example_env
     ((Client_stop_setter (PBool True) (example_client OverrideClientC))
        \<lparr>queue := queue (Client_stop_setter (PBool True) (example_client OverrideClientC))
                    @ [PDict [(''msg'', PStr ''ping'')]]\<rparr>)
     = Returned ((example_client OverrideClientC)
                   \<lparr>stop_flag := True, queue := [PDict [(''msg'', PStr ''ping'')]]\<rparr>)"
proof -
  have q: "queue (example_client OverrideClientC) = []"
    by (simp add: example_client_def Client_init_def)
  have t: "truthy (PBool True)"
    by simp
  from stop_wakes_blocked_loop [of "PBool True" "example_client OverrideClientC" example_env
      "[PDict [(''msg'', PStr ''ping'')]]"] q t
  show ?thesis by blast
qed

text \<open>
  C10. Assigning a falsy value to \<^verbatim>\<open>stop\<close> changes nothing in the client: the flag keeps
  its value and nothing is put in the queue. Once the flag is set, it stays set through any
  sequence of assignments to the property.
\<close>

theorem stop_flag_monotone:
  "(\<not> truthy v \<longrightarrow> Client_stop_setter v st = st) \<and>
   (stop_flag st \<longrightarrow> stop_flag (fold Client_stop_setter vs st))"
proof -
  have "stop_flag s \<Longrightarrow> stop_flag (fold Client_stop_setter vs s)" for s
    by (induction vs arbitrary: s) (simp_all add: Client_stop_setter_def)
  then show ?thesis by (simp add: Client_stop_setter_def)
qed

theorem stop_flag_monotone_witness:
  "\<not> truthy (PBool False) \<and>
   Client_stop_setter (PBool False) (example_client ClientC) = example_client ClientC \<and>
   stop_flag (Client_stop_setter (PInt 1) (example_client ClientC)) \<and>
   stop_flag (fold Client_stop_setter [PBool False, PNone, PInt 0]
                (Client_stop_setter (PInt 1) (example_client ClientC)))"
  using stop_flag_monotone [of "PBool False" "example_client ClientC" "[]"]
    stop_flag_monotone [of PNone "Client_stop_setter (PInt 1) (example_client ClientC)"
      "[PBool False, PNone, PInt 0]"]
  by (simp add: Client_stop_setter_def)

section \<open>Login\<close>

text \<open>
  C7, as the claim states it, fails: the login result below carries a \<^verbatim>\<open>session\<close>, and
  after the login the \<^verbatim>\<open>session\<close> slot of the client data is still the empty string it
  was initialised with.
\<close>

theorem login_session_counterexample:
  "getitem example_login_result ''session'' = Inr (PStr ''sess'') \<and>
   fst (ClientAPI_login (Inr example_login_result) (ClientData_init ''chat.example.org'' ''bot'' ''secret''))
     = Inr example_login_result \<and>
   session (snd (ClientAPI_login (Inr example_login_result)
                   (ClientData_init ''chat.example.org'' ''bot'' ''secret''))) = PStr [] \<and>
   session (snd (ClientAPI_login (Inr example_login_result)
                   (ClientData_init ''chat.example.org'' ''bot'' ''secret''))) \<noteq> PStr ''sess''"
  by (simp add: ClientAPI_login_def example_login_result_def ClientData_init_def)

text \<open>
  C7, amended. When the login call returns a result that has the keys \<^verbatim>\<open>token\<close>,
  \<^verbatim>\<open>expires\<close> and \<^verbatim>\<open>user_id\<close>, the login succeeds and the client data is what it was with
  \<^verbatim>\<open>token\<close>, \<^verbatim>\<open>token_expires\<close> and \<^verbatim>\<open>user_id\<close> set from the result; \<^verbatim>\<open>server\<close>,
  \<^verbatim>\<open>username\<close> and \<^verbatim>\<open>password\<close> are unchanged.
\<close>

theorem login_captures_token_and_user_id:
  "getitem res ''token'' = Inr t \<and> getitem res ''expires'' = Inr x \<and> getitem res ''user_id'' = Inr u \<longrightarrow>
     ClientAPI_login (Inr res) d = (Inr res, d\<lparr>token := t, token_expires := x, user_id := u\<rparr>) \<and>
     token (snd (ClientAPI_login (Inr res) d)) = t \<and>
     token_expires (snd (ClientAPI_login (Inr res) d)) = x \<and>
     user_id (snd (ClientAPI_login (Inr res) d)) = u \<and>
     server (snd (ClientAPI_login (Inr res) d)) = server d \<and>
     username (snd (ClientAPI_login (Inr res) d)) = username d \<and>
     password (snd (ClientAPI_login (Inr res) d)) = password d"
  by (simp add: ClientAPI_login_def)

theorem login_captures_token_and_user_id_witness:
  "getitem example_login_result ''token'' = Inr (PStr ''tok'') \<and>
   getitem example_login_result ''expires'' = Inr (PInt 1700000000) \<and>
   getitem example_login_result ''user_id'' = Inr (PStr ''uid'') \<and>
   snd (ClientAPI_login (Inr example_login_result) (ClientData_init ''chat.example.org'' ''bot'' ''secret''))
     = \<lparr> server = ''chat.example.org'', username = ''bot'', password = ''secret'',
         token = PStr ''tok'', session = PStr [], user_id = PStr ''uid'',
         token_expires = PInt 1700000000 \<rparr>"
proof -
  have k: "getitem example_login_result ''token'' = Inr (PStr ''tok'')"
    "getitem example_login_result ''expires'' = Inr (PInt 1700000000)"
    "getitem example_login_result ''user_id'' = Inr (PStr ''uid'')"
    by (simp_all add: example_login_result_def)
  from k login_captures_token_and_user_id [of example_login_result "PStr ''tok''" "PInt 1700000000"
      "PStr ''uid''" "ClientData_init ''chat.example.org'' ''bot'' ''secret''"]
  show ?thesis by (simp add: ClientData_init_def)
qed

text \<open>
  The session id of the Connected message goes to the attribute \<^verbatim>\<open>session\<close> of the client
  itself; the client data is not touched.
\<close>

lemma connected_sets_client_session:
  assumes "msg_type E msg = CONNECTED" "connected_parse E msg = Inr r" "getitem r ''session'' = Inr s"
  shows "route E msg st = (None, st\<lparr>client_session := Some s, ready := ready st @ [DoLoginTask]\<rparr>)"
  using assms by (simp add: route_def call_soon_def)

section \<open>Server errors\<close>

subsection \<open>The delay\<close>

lemma floorlog2_eq: "2 ^ k \<le> m \<Longrightarrow> m < 2 ^ Suc k \<Longrightarrow> floorlog 2 m = Suc k"
proof -
  assume a: "2 ^ k \<le> m" "m < 2 ^ Suc k"
  have "floorlog 2 m \<le> Suc k" using a(2) by (simp add: floorlog_le_iff)
  moreover have "Suc k \<le> floorlog 2 m" using a(1) by (intro floorlog_ge_SucI) simp_all
  ultimately show ?thesis by simp
qed

lemma round53_small: "m < 2 ^ 53 \<Longrightarrow> round53 m = m"
proof -
  assume "m < 2 ^ 53"
  then have "floorlog 2 m \<le> 53" by (simp add: floorlog_le_iff)
  then show ?thesis by (simp add: round53_def)
qed

lemma round53_error: "\<bar>int (round53 m) - int m\<bar> * 2 ^ 53 \<le> int m"
proof (cases "floorlog 2 m \<le> 53")
  case True
  then show ?thesis by (simp add: round53_def)
next
  case False
  define d where "d = floorlog 2 m - 53"
  define q where "q = m div 2 ^ d"
  define r where "r = m mod 2 ^ d"
  from False have fl: "floorlog 2 m = d + 53" and mpos: "m > 0"
    by (auto simp: d_def floorlog_def intro!: Nat.gr0I)
  have m: "m = q * 2 ^ d + r"
    unfolding q_def r_def by (rule div_mult_mod_eq [symmetric])
  then have mi: "int m = int q * 2 ^ d + int r"
    by (metis of_nat_add of_nat_mult of_nat_numeral of_nat_power)
  have rlt: "r < 2 ^ d"
    by (simp add: r_def)
  from floorlog_bounds [of m 2] mpos fl have lo: "2 ^ (d + 52) \<le> m"
    by (simp add: add.commute)
  have "2 * \<bar>int (round53 m) - int m\<bar> \<le> 2 ^ d"
  proof (cases "2 ^ d < 2 * r \<or> (2 * r = 2 ^ d \<and> odd q)")
    case True
    then have "round53 m = (q + 1) * 2 ^ d"
      by (simp add: round53_def Let_def d_def [symmetric] q_def [symmetric] r_def [symmetric])
    then have "int (round53 m) - int m = 2 ^ d - int r"
      using mi by (simp add: algebra_simps)
    moreover from True have "2 ^ d \<le> 2 * r"
      by auto
    then have "2 ^ d \<le> 2 * int r"
      using of_nat_mono [of "2 ^ d" "2 * r", where 'a = int] by simp
    moreover have "int r < 2 ^ d"
      using of_nat_less_iff [of r "2 ^ d", where 'a = int] rlt by simp
    ultimately show ?thesis by simp
  next
    case False
    then have "round53 m = q * 2 ^ d"
      by (simp add: round53_def Let_def d_def [symmetric] q_def [symmetric] r_def [symmetric])
    then have "int (round53 m) - int m = - int r"
      using mi by (simp add: algebra_simps)
    moreover from False have "2 * r \<le> 2 ^ d"
      by auto
    then have "2 * int r \<le> 2 ^ d"
      using of_nat_mono [of "2 * r" "2 ^ d", where 'a = int] by simp
    ultimately show ?thesis by simp
  qed
  then have "\<bar>int (round53 m) - int m\<bar> * 2 ^ 53 \<le> 2 ^ d * 2 ^ 52"
    by simp
  also have "\<dots> = 2 ^ (d + 52)"
    by (simp add: power_add)
  also have "\<dots> \<le> int m"
    using of_nat_mono [OF lo, where 'a = int] by simp
  finally show ?thesis .
qed


lemma round53_error_real: "\<bar>real (round53 m) - real m\<bar> * 2 ^ 53 \<le> real m"
proof -
  have "real_of_int (\<bar>int (round53 m) - int m\<bar> * 2 ^ 53) \<le> real_of_int (int m)"
    using round53_error [of m] by (simp only: of_int_le_iff)
  then show ?thesis by simp
qed

lemma float_times_milli_nonneg:
  assumes "0 \<le> f"
  shows "\<bar>float_times_milli f - real_of_int f / 1000\<bar> \<le> real_of_int f / (1000 * 2 ^ 52)"
proof -
  define x where "x = real (nat f)"
  define R where "R = real (round53 (nat f * 1152921504606847))"
  from assms have f: "real_of_int f = x" "0 \<le> x" "nat \<bar>f\<bar> = nat f"
    by (simp_all add: x_def)
  have s: "real_of_int (sgn f) * R = R"
    using assms by (cases "f = 0") (simp_all add: R_def round53_def)
  have e: "\<bar>R - x * 1152921504606847\<bar> * 9007199254740992 \<le> x * 1152921504606847"
    using round53_error_real [of "nat f * 1152921504606847"] by (simp add: R_def x_def)
  have t: "float_times_milli f = R / 1152921504606846976"
    using s by (simp add: float_times_milli_def f(3) R_def)
  have k: "(1000 * 2 ^ 52 :: real) = 4503599627370496000"
    by simp
  from e f(2) have "\<bar>R / 1152921504606846976 - x / 1000\<bar> \<le> x / 4503599627370496000"
    by argo
  then show ?thesis
    unfolding t f(1) k .
qed

lemma float_times_milli_neg: "float_times_milli (- f) = - float_times_milli f"
  by (simp add: float_times_milli_def)

lemma float_times_milli_near:
  "\<bar>float_times_milli f - real_of_int f / 1000\<bar> \<le> \<bar>real_of_int f\<bar> / (1000 * 2 ^ 52)"
proof (cases "0 \<le> f")
  case True
  with float_times_milli_nonneg [of f] show ?thesis by simp
next
  case False
  define g where "g = - f"
  from False have g: "0 \<le> g" "f = - g" "\<bar>real_of_int f\<bar> = real_of_int g"
    by (simp_all add: g_def)
  have "\<bar>float_times_milli g - real_of_int g / 1000\<bar> \<le> real_of_int g / (1000 * 2 ^ 52)"
    by (rule float_times_milli_nonneg [OF g(1)])
  moreover have "float_times_milli f - real_of_int f / 1000
                   = - (float_times_milli g - real_of_int g / 1000)"
    by (simp add: g(2) float_times_milli_neg)
  ultimately show ?thesis
    by (simp only: g(3) abs_minus_cancel)
qed

lemma float_of_int_near:
  assumes "float_of_int t = Inr f"
  shows "\<bar>real_of_int f - real_of_int t\<bar> * 2 ^ 53 \<le> \<bar>real_of_int t\<bar>"
proof -
  define m where "m = nat \<bar>t\<bar>"
  from assms have f: "f = sgn t * int (round53 m)"
    by (simp add: float_of_int_def Let_def m_def split: if_splits)
  have e: "\<bar>real (round53 m) - real m\<bar> * 2 ^ 53 \<le> real m"
    by (rule round53_error_real)
  have m: "real m = \<bar>real_of_int t\<bar>"
    by (simp add: m_def)
  have "\<bar>real_of_int f - real_of_int t\<bar> = \<bar>real (round53 m) - real m\<bar>"
  proof (cases "0 \<le> t")
    case True
    then show ?thesis
      by (cases "t = 0") (simp_all add: f m_def round53_def)
  next
    case False
    then have "real_of_int f - real_of_int t = - (real (round53 m) - real m)"
      by (simp add: f m_def)
    then show ?thesis
      by (simp only: abs_minus_cancel)
  qed
  with e m show ?thesis by simp
qed

lemma delay_near_timeToReset:
  assumes "float_of_int t = Inr f"
  shows "\<bar>float_times_milli f - real_of_int t / 1000\<bar> \<le> \<bar>real_of_int t\<bar> / (1000 * 2 ^ 51)"
proof -
  have "\<bar>float_times_milli f - real_of_int f / 1000\<bar> \<le> \<bar>real_of_int f\<bar> / (1000 * 2 ^ 52)"
    by (rule float_times_milli_near)
  then have 1: "\<bar>float_times_milli f - real_of_int f / 1000\<bar>
                  \<le> \<bar>real_of_int f\<bar> / 4503599627370496000"
    by simp
  have "\<bar>real_of_int f - real_of_int t\<bar> * 2 ^ 53 \<le> \<bar>real_of_int t\<bar>"
    by (rule float_of_int_near [OF assms])
  then have 2: "\<bar>real_of_int f - real_of_int t\<bar> * 9007199254740992 \<le> \<bar>real_of_int t\<bar>"
    by simp
  from 1 2 have "\<bar>float_times_milli f - real_of_int t / 1000\<bar>
                   \<le> \<bar>real_of_int t\<bar> / 2251799813685248000"
    by argo
  then show ?thesis by simp
qed

lemma float_of_int_small: "\<bar>t\<bar> < 2 ^ 53 \<Longrightarrow> float_of_int t = Inr t"
proof -
  assume a: "\<bar>t\<bar> < 2 ^ 53"
  then have "nat \<bar>t\<bar> < 2 ^ 53"
    by (simp add: nat_less_iff)
  then have r: "round53 (nat \<bar>t\<bar>) = nat \<bar>t\<bar>"
    by (rule round53_small)
  have "nat \<bar>t\<bar> < 2 ^ 1024"
    using \<open>nat \<bar>t\<bar> < 2 ^ 53\<close> by (rule less_trans) simp
  then have "\<not> 2 ^ 1024 \<le> round53 (nat \<bar>t\<bar>)"
    by (simp only: r not_le)
  moreover have "sgn t * int (nat \<bar>t\<bar>) = t"
    by (simp add: sgn_mult_abs)
  ultimately show ?thesis
    by (simp only: float_of_int_def Let_def r if_False)
qed

lemma float_times_milli_2000: "float_times_milli 2000 = 2"
proof -
  have "floorlog 2 2305843009213694000 = Suc 61"
    by (rule floorlog2_eq) simp_all
  then have "round53 2305843009213694000 = 2305843009213693952"
    by (simp add: round53_def)
  then show ?thesis
    by (simp add: float_times_milli_def)
qed

lemma float_of_int_too_large: "float_of_int too_large = Inl OverflowError"
proof -
  have "floorlog 2 (2 ^ 1024) = Suc 1024"
    by (rule floorlog2_eq) simp_all
  then have "round53 (2 ^ 1024) = 2 ^ 1024"
    by (simp add: round53_def)
  then show ?thesis
    by (simp add: float_of_int_def too_large_def nat_power_eq)
qed

subsection \<open>Too many requests\<close>

text \<open>
  C2, as the claim states it, fails for a \<^verbatim>\<open>timeToReset\<close> that is too large for a float:
  the error result below has \<^verbatim>\<open>error.details.timeToReset\<close> and the recover message has
  \<^verbatim>\<open>rid\<close> and \<^verbatim>\<open>msg\<close>, and \<^verbatim>\<open>OverrideClient.on_error\<close> raises OverflowError with the client
  as it was: nothing is suspended and nothing is sent again.
\<close>

theorem too_many_requests_overflow_counterexample:
  "getitem example_recover_message ''rid'' = Inr (PStr ''r1'') \<and>
   getitem example_recover_message ''msg'' = Inr (PStr ''hi'') \<and>
   OverrideClient_on_error example_env ''too-many-requests'' example_overflow_result
       example_recover_message (example_client OverrideClientC)
     = (Some OverflowError, example_client OverrideClientC) \<and>
   timers (example_client OverrideClientC) = [] \<and> ready (example_client OverrideClientC) = []"
  by (simp add: OverrideClient_on_error_def on_too_many_requests_def example_env_def
      example_overflow_result_def example_recover_message_def float_of_int_too_large
      example_client_def Client_init_def)

text \<open>
  C2, amended. For an error of kind TooManyRequests whose \<^verbatim>\<open>error_result\<close> has an
  \<^verbatim>\<open>error.details.timeToReset\<close> that \<^verbatim>\<open>int\<close> accepts and that converts to a float, and
  whose \<^verbatim>\<open>recover_message\<close> has \<^verbatim>\<open>rid\<close> and \<^verbatim>\<open>msg\<close>: \<^verbatim>\<open>OverrideClient.on_error\<close> does
  nothing but suspend itself for the float product of \<^verbatim>\<open>timeToReset\<close> and \<^verbatim>\<open>0.001\<close> seconds,
  which is \<^verbatim>\<open>timeToReset\<close> thousandths of a second up to the rounding of floats (a relative
  error of at most \<^verbatim>\<open>2 ** -51\<close>); when it is resumed, in whatever state the client then is,
  it does nothing but spawn one \<^verbatim>\<open>send_message\<close> with that room id and that text, and it
  is finished. Neither step touches the holder: \<^verbatim>\<open>on_error\<close> itself delivers nothing to the
  original caller. For a \<^verbatim>\<open>timeToReset\<close> that does not convert to a float, \<^verbatim>\<open>on_error\<close>
  raises before it suspends, with the client unchanged.
\<close>

theorem too_many_requests_sleeps_then_resends_once:
  "(errortype = TOO_MANY_REQUESTS E \<and>
    getitem error_result ''error'' = Inr er \<and>
    getitem er ''details'' = Inr det \<and>
    getitem det ''timeToReset'' = Inr v \<and> py_int (str_int E) v = Inr t \<and>
    float_of_int t = Inr f \<and>
    getitem recover_message ''rid'' = Inr room_id \<and>
    getitem recover_message ''msg'' = Inr txt \<longrightarrow>
      OverrideClient_on_error E errortype error_result recover_message st =
        (None, st\<lparr>timers := timers st @ [(float_times_milli f, OnTooManyResume recover_message)]\<rparr>) \<and>
      \<bar>float_times_milli f - real_of_int t / 1000\<bar> \<le> \<bar>real_of_int t\<bar> / (1000 * 2 ^ 51) \<and>
      run_handle E (OnTooManyResume recover_message) st' =
        st'\<lparr>ready := ready st' @ [SendMessageTask room_id txt]\<rparr> \<and>
      on_too_many_resume recover_message st' =
        (None, st'\<lparr>ready := ready st' @ [SendMessageTask room_id txt]\<rparr>) \<and>
      holder (snd (OverrideClient_on_error E errortype error_result recover_message st)) = holder st \<and>
      holder (snd (on_too_many_resume recover_message st')) = holder st') \<and>
   (errortype = TOO_MANY_REQUESTS E \<and>
    getitem error_result ''error'' = Inr er \<and>
    getitem er ''details'' = Inr det \<and>
    getitem det ''timeToReset'' = Inr v \<and> py_int (str_int E) v = Inr t \<and>
    float_of_int t = Inl e \<longrightarrow>
      OverrideClient_on_error E errortype error_result recover_message st = (Some e, st))"
proof (intro conjI impI)
  assume a: "errortype = TOO_MANY_REQUESTS E \<and>
    getitem error_result ''error'' = Inr er \<and>
    getitem er ''details'' = Inr det \<and>
    getitem det ''timeToReset'' = Inr v \<and> py_int (str_int E) v = Inr t \<and>
    float_of_int t = Inl e"
  then show "OverrideClient_on_error E errortype error_result recover_message st = (Some e, st)"
    by (simp add: OverrideClient_on_error_def on_too_many_requests_def)
next
  assume a: "errortype = TOO_MANY_REQUESTS E \<and>
    getitem error_result ''error'' = Inr er \<and>
    getitem er ''details'' = Inr det \<and>
    getitem det ''timeToReset'' = Inr v \<and> py_int (str_int E) v = Inr t \<and>
    float_of_int t = Inr f \<and>
    getitem recover_message ''rid'' = Inr room_id \<and>
    getitem recover_message ''msg'' = Inr txt"
  then show "\<bar>float_times_milli f - real_of_int t / 1000\<bar> \<le> \<bar>real_of_int t\<bar> / (1000 * 2 ^ 51)"
    by (intro delay_near_timeToReset) simp
  from a show "OverrideClient_on_error E errortype error_result recover_message st =
      (None, st\<lparr>timers := timers st @ [(float_times_milli f, OnTooManyResume recover_message)]\<rparr>)"
    by (simp add: OverrideClient_on_error_def on_too_many_requests_def)
  then show "holder (snd (OverrideClient_on_error E errortype error_result recover_message st)) = holder st"
    by simp
  from a show r: "on_too_many_resume recover_message st' =
      (None, st'\<lparr>ready := ready st' @ [SendMessageTask room_id txt]\<rparr>)"
    by (simp add: on_too_many_resume_def send_msg_def call_soon_def)
  then show "run_handle E (OnTooManyResume recover_message) st' =
      st'\<lparr>ready := ready st' @ [SendMessageTask room_id txt]\<rparr>"
    by simp
  from r show "holder (snd (on_too_many_resume recover_message st')) = holder st'"
    by simp
qed

theorem too_many_requests_sleeps_then_resends_once_witness:
  "OverrideClient_on_error example_env ''too-many-requests'' example_error_result
       example_recover_message (example_client OverrideClientC) =
     (None, (example_client OverrideClientC)
              \<lparr>timers := [(2, OnTooManyResume example_recover_message)]\<rparr>) \<and>
   run_handle example_env (OnTooManyResume example_recover_message) (example_client OverrideClientC) =
     (example_client OverrideClientC)\<lparr>ready := [SendMessageTask (PStr ''r1'') (PStr ''hi'')]\<rparr> \<and>
   OverrideClient_on_error example_env ''too-many-requests'' example_overflow_result
       example_recover_message (example_client OverrideClientC)
     = (Some OverflowError, example_client OverrideClientC)"
proof -
  have k: "''too-many-requests'' = TOO_MANY_REQUESTS example_env"
    "getitem example_error_result ''error'' = Inr (PDict [(''details'', PDict [(''timeToReset'', PInt 2000)])])"
    "getitem (PDict [(''details'', PDict [(''timeToReset'', PInt 2000)])]) ''details''
       = Inr (PDict [(''timeToReset'', PInt 2000)])"
    "getitem (PDict [(''timeToReset'', PInt 2000)]) ''timeToReset'' = Inr (PInt 2000)"
    "py_int (str_int example_env) (PInt 2000) = Inr 2000"
    "getitem example_recover_message ''rid'' = Inr (PStr ''r1'')"
    "getitem example_recover_message ''msg'' = Inr (PStr ''hi'')"
    by (simp_all add: example_env_def example_error_result_def example_recover_message_def)
  have f: "float_of_int 2000 = Inr 2000"
    by (rule float_of_int_small) simp
  have o: "getitem example_overflow_result ''error''
             = Inr (PDict [(''details'', PDict [(''timeToReset'', PInt too_large)])])"
    "getitem (PDict [(''details'', PDict [(''timeToReset'', PInt too_large)])]) ''details''
       = Inr (PDict [(''timeToReset'', PInt too_large)])"
    "getitem (PDict [(''timeToReset'', PInt too_large)]) ''timeToReset'' = Inr (PInt too_large)"
    "py_int (str_int example_env) (PInt too_large) = Inr too_large"
    by (simp_all add: example_overflow_result_def)
  have e: "timers (example_client OverrideClientC) = []" "ready (example_client OverrideClientC) = []"
    by (simp_all add: example_client_def Client_init_def)
  from k f e too_many_requests_sleeps_then_resends_once
    [of "''too-many-requests''" example_env example_error_result
      "PDict [(''details'', PDict [(''timeToReset'', PInt 2000)])]"
      "PDict [(''timeToReset'', PInt 2000)]" "PInt 2000" 2000 2000 example_recover_message
      "PStr ''r1''" "PStr ''hi''"
      "example_client OverrideClientC" "example_client OverrideClientC"]
  have 1: "OverrideClient_on_error example_env ''too-many-requests'' example_error_result
       example_recover_message (example_client OverrideClientC) =
     (None, (example_client OverrideClientC)
              \<lparr>timers := [(2, OnTooManyResume example_recover_message)]\<rparr>)"
    and 2: "run_handle example_env (OnTooManyResume example_recover_message) (example_client OverrideClientC) =
     (example_client OverrideClientC)\<lparr>ready := [SendMessageTask (PStr ''r1'') (PStr ''hi'')]\<rparr>"
    by (simp_all add: float_times_milli_2000)
  from k(1) o float_of_int_too_large too_many_requests_sleeps_then_resends_once
    [of "''too-many-requests''" example_env example_overflow_result
      "PDict [(''details'', PDict [(''timeToReset'', PInt too_large)])]"
      "PDict [(''timeToReset'', PInt too_large)]" "PInt too_large" too_large _ example_recover_message
      _ _ "example_client OverrideClientC" _ OverflowError]
  have 3: "OverrideClient_on_error example_env ''too-many-requests'' example_overflow_result
       example_recover_message (example_client OverrideClientC)
     = (Some OverflowError, example_client OverrideClientC)"
    by simp
  from 1 2 3 show ?thesis by simp
qed

text \<open>
  C5. A result that carries an error of a kind other than TooManyRequests, for a call that
  is pending: the holder fills the slot of the call with the failure, which is what the
  caller of that call observes; \<^verbatim>\<open>Client.on_result\<close> catches the exception and spawns
  \<^verbatim>\<open>on_error\<close>; and \<^verbatim>\<open>OverrideClient.on_error\<close>, for every kind other than
  TooManyRequests, returns with the client unchanged: nothing is suspended, nothing is
  sent again.
\<close>

theorem other_errors_surface_without_retry:
  "errortype \<noteq> TOO_MANY_REQUESTS E \<longrightarrow>
     OverrideClient_on_error E errortype error_result recover_message st' = (None, st') \<and>
     (cls st' = OverrideClientC \<longrightarrow>
        run_handle E (OnErrorTask errortype error_result recover_message) st' = st') \<and>
     (recv_result E = AsyncHolder_recv_result decode \<and> decode msg = (i, Some errortype) \<and>
      pending (holder st) i = Some req \<longrightarrow>
        fst (Client_on_result E msg st) = None \<and>
        completed (holder (snd (Client_on_result E msg st))) i = Some (Failure errortype msg req) \<and>
        pending (holder (snd (Client_on_result E msg st))) i = None \<and>
        ready (snd (Client_on_result E msg st)) = ready st @ [OnErrorTask errortype msg req] \<and>
        timers (snd (Client_on_result E msg st)) = timers st)"
  by (simp add: OverrideClient_on_error_def on_error_def Client_on_result_def
      AsyncHolder_recv_result_def resolveFailure_def call_soon_def)

theorem other_errors_surface_without_retry_witness:
  "''not-allowed'' \<noteq> TOO_MANY_REQUESTS example_env \<and>
   example_decode (PDict [(''id'', PStr ''42''), (''error'', PStr ''not-allowed'')])
     = (''42'', Some ''not-allowed'') \<and>
   completed (holder (snd (Client_on_result example_env
       (PDict [(''id'', PStr ''42''), (''error'', PStr ''not-allowed'')])
       ((example_client OverrideClientC)
          \<lparr>holder := empty_holder\<lparr>pending := [''42'' \<mapsto> example_recover_message]\<rparr>\<rparr>)))) ''42''
     = Some (Failure ''not-allowed'' (PDict [(''id'', PStr ''42''), (''error'', PStr ''not-allowed'')])
               example_recover_message) \<and>
   run_handle example_env
       (OnErrorTask ''not-allowed'' (PDict [(''id'', PStr ''42''), (''error'', PStr ''not-allowed'')])
          example_recover_message)
       (example_client OverrideClientC) = example_client OverrideClientC"
proof -
  let ?msg = "PDict [(''id'', PStr ''42''), (''error'', PStr ''not-allowed'')]"
  let ?st = "(example_client OverrideClientC)
          \<lparr>holder := empty_holder\<lparr>pending := [''42'' \<mapsto> example_recover_message]\<rparr>\<rparr>"
  have k: "''not-allowed'' \<noteq> TOO_MANY_REQUESTS example_env"
    "recv_result example_env = AsyncHolder_recv_result example_decode"
    "example_decode ?msg = (''42'', Some ''not-allowed'')"
    "pending (holder ?st) ''42'' = Some example_recover_message"
    "cls (example_client OverrideClientC) = OverrideClientC"
    by (simp_all add: example_env_def example_decode_def example_client_def Client_init_def)
  from k other_errors_surface_without_retry
    [of "''not-allowed''" example_env ?msg example_recover_message "example_client OverrideClientC"
      example_decode ?msg "''42''" ?st example_recover_message]
  show ?thesis by simp
qed

section \<open>One pass of event\<close>

lemma event_for_eq:
  "a < length (cells st) \<Longrightarrow>
     event_for a d xs st =
       st\<lparr>cells := (if xs = [] then cells st else (cells st)[a := Some (last xs)]),
          ready := ready st @ map (sched a d) xs\<rparr>"
proof (induction xs arbitrary: st)
  case Nil
  then show ?case by simp
next
  case (Cons x xs)
  then show ?case by (simp add: call_soon_def sched_def Let_def)
qed

lemma EventClient_event_eq:
  "EventClient_event name d st =
     st\<lparr>callbacks := (case callbacks st name of None \<Rightarrow> (callbacks st)(name \<mapsto> [])
                                               | Some xs \<Rightarrow> callbacks st),
        cells := cells st @ [if listeners st name = [] then None
                             else Some (last (listeners st name))],
        ready := ready st @ map (sched (length (cells st)) d) (listeners st name)\<rparr>"
  by (cases "callbacks st name")
     (simp_all add: EventClient_event_def callbacks_getitem_def listeners_def event_for_eq)

lemma grows_refl: "grows st st"
  by (simp add: grows_def)

lemma take_take_le:
  "take n ys = xs \<Longrightarrow> n = length xs \<Longrightarrow> take (length ys) zs = ys \<Longrightarrow> length ys \<le> length zs \<Longrightarrow>
     take n zs = xs"
  by (metis append_eq_conv_conj append_take_drop_id take_append order_refl take_all min.absorb2 length_take take_take min.commute)

lemma grows_trans: "grows st st' \<Longrightarrow> grows st' st'' \<Longrightarrow> grows st st''"
  unfolding grows_def
  by (metis (no_types, lifting) order_trans take_take_le)

lemma grows_event: "grows st (EventClient_event name d st)"
  by (simp add: EventClient_event_eq grows_def)

lemma grows_add_cb: "grows st (add_cb name cb st)"
  by (cases "callbacks st name") (simp_all add: add_cb_def callbacks_getitem_def grows_def)

lemma grows_del_cb: "grows st (snd (del_cb name cb st))"
  by (cases "callbacks st name") (simp_all add: del_cb_def callbacks_getitem_def grows_def)

lemma grows_do_action: "grows st (do_action act st)"
  by (cases act) (simp_all add: grows_event grows_add_cb grows_del_cb)

lemma grows_fold: "grows st (fold do_action acts st)"
proof (induction acts arbitrary: st)
  case Nil
  show ?case by (simp add: grows_refl)
next
  case (Cons act acts)
  show ?case using grows_trans [OF grows_do_action Cons] by simp
qed

lemma grows_changed: "grows st (EventClient_changed E msg st)"
  by (simp add: EventClient_changed_def grows_refl grows_event
      split: sum.splits changed_stream_message.splits)

lemma invoke_calls:
  "\<exists>st1. calls st1 = calls st @ [(cb, d)] \<and> ready st1 = ready st \<and> cells st1 = cells st \<and>
         grows st1 (invoke E cb d st)"
proof -
  let ?st1 = "st\<lparr>calls := calls st @ [(cb, d)]\<rparr>"
  have "grows ?st1 (invoke E cb d st)"
    by (cases cb) (simp_all add: invoke_def Let_def grows_refl grows_changed grows_fold)
  then show ?thesis
    by (intro exI [of _ ?st1]) simp
qed

lemma run_handle_sched:
  assumes "a < length (cells st)" "cells st ! a = Some c"
  shows "\<exists>st1. calls st1 = calls st @ invoked_by c d cb \<and> ready st1 = ready st \<and>
               cells st1 = cells st \<and> grows st1 (run_handle E (sched a d cb) st)"
proof (cases "iscoroutinefunction cb")
  case True
  with invoke_calls [of st cb d E] show ?thesis
    by (simp add: sched_def invoked_by_def)
next
  case False
  note plain = this
  show ?thesis
  proof (cases "iscoroutinefunction c")
    case True
    with plain assms have "run_handle E (sched a d cb) st = st" "invoked_by c d cb = []"
      by (simp_all add: sched_def invoked_by_def cell_get_def)
    then show ?thesis
      by (intro exI [of _ st]) (simp add: grows_refl)
  next
    case False
    with plain assms have "run_handle E (sched a d cb) st = invoke E c d st"
      "invoked_by c d cb = [(c, d)]"
      by (simp_all add: sched_def invoked_by_def cell_get_def)
    with invoke_calls [of st c d E] show ?thesis
      by simp
  qed
qed

lemma run_n_pass:
  "ready st = map (sched a d) ys @ rest \<Longrightarrow> a < length (cells st) \<Longrightarrow> cells st ! a = Some c \<Longrightarrow>
     calls (run_n E (length ys) st) = calls st @ concat (map (invoked_by c d) ys)"
proof (induction ys arbitrary: st rest)
  case Nil
  show ?case by simp
next
  case (Cons y ys)
  let ?st0 = "st\<lparr>ready := map (sched a d) ys @ rest\<rparr>"
  let ?st' = "run_handle E (sched a d y) ?st0"
  from Cons.prems have c0: "a < length (cells ?st0)" "cells ?st0 ! a = Some c"
    by simp_all
  from run_handle_sched [OF c0, of d y E] obtain st1 where
    st1: "calls st1 = calls st @ invoked_by c d y" "ready st1 = map (sched a d) ys @ rest"
      "cells st1 = cells st" "grows st1 ?st'"
    by auto
  from st1(4) have r: "ready ?st' = ready st1 @ drop (length (ready st1)) (ready ?st')"
    unfolding grows_def by (metis append_take_drop_id)
  from st1(4) have l: "length (cells st1) \<le> length (cells ?st')"
    and t: "take (length (cells st1)) (cells ?st') = cells st1"
    and k: "calls ?st' = calls st1"
    unfolding grows_def by simp_all
  from l st1(3) Cons.prems(2) have a': "a < length (cells ?st')"
    by simp
  from t st1(3) Cons.prems(2,3) have c': "cells ?st' ! a = Some c"
    by (metis nth_take)
  from r st1(2) have r': "ready ?st' = map (sched a d) ys @ (rest @ drop (length (ready st1)) (ready ?st'))"
    by simp
  from Cons.IH [OF r' a' c'] k st1(1) Cons.prems(1) show ?case
    by simp
qed

text \<open>
  What a pass does, whatever the callbacks do when they run: every listener that is a
  coroutine function is invoked once, in its place; for every listener that is a plain
  function the call goes to the last listener of the list, the one the loop variable was
  left at, and runs only if that one is a plain function. The list is the one found when
  \<^verbatim>\<open>event\<close> was called: what the callbacks register or remove while the pass runs has no
  effect on it.
\<close>

lemma pass_invokes:
  assumes "ready st = []"
  shows "calls (run_once E (EventClient_event name d st)) =
           calls st @ concat (map (invoked_by (last (listeners st name)) d) (listeners st name))"
proof (cases "listeners st name = []")
  case True
  with assms show ?thesis
    by (simp add: run_once_def EventClient_event_eq)
next
  case False
  let ?st1 = "EventClient_event name d st"
  let ?xs = "listeners st name"
  have 1: "ready ?st1 = map (sched (length (cells st)) d) ?xs @ []"
    using assms by (simp add: EventClient_event_eq)
  have 2: "length (cells st) < length (cells ?st1)"
    by (simp add: EventClient_event_eq)
  have 3: "cells ?st1 ! length (cells st) = Some (last ?xs)"
    using False by (simp add: EventClient_event_eq)
  have 4: "calls ?st1 = calls st"
    by (simp add: EventClient_event_eq)
  from run_n_pass [OF 1 2 3, of E] 1 4 show ?thesis
    by (simp add: run_once_def)
qed

text \<open>
  The pass invokes every listener once and in order in the case where the loop variable
  cannot go wrong: when every listener but the last is a coroutine function.
\<close>

lemma pass_in_order:
  assumes "\<forall>cb \<in> set (butlast xs). iscoroutinefunction cb"
  shows "concat (map (invoked_by (last xs) d) xs) = map (\<lambda>cb. (cb, d)) xs"
proof (cases xs rule: rev_cases)
  case Nil
  then show ?thesis by simp
next
  case (snoc ys y)
  with assms have "\<forall>cb \<in> set ys. iscoroutinefunction cb"
    by simp
  then have "concat (map (invoked_by y d) ys) = map (\<lambda>cb. (cb, d)) ys"
    by (induction ys) (simp_all add: invoked_by_def)
  with snoc show ?thesis
    by (simp add: invoked_by_def)
qed

section \<open>Firing an event with several plain functions registered\<close>

lemma two_listeners_state:
  "listeners two_listeners ''message'' = [PyFunc 1 False, PyFunc 2 False]"
  "ready two_listeners = []" "calls two_listeners = []" "cells two_listeners = []"
  by (simp_all add: two_listeners_def example_client_def Client_init_def add_cb_def
      callbacks_getitem_def EventClient_callbacks_def listeners_def)

text \<open>
  C1 does not hold of the code. With the two plain functions 1 and 2 registered under
  \<^verbatim>\<open>message\<close>, in this order, \<^verbatim>\<open>event\<close> schedules two closures over the same cell, and the
  pass calls function 2 twice and function 1 not at all, whatever the payload and whatever
  the functions do.
\<close>

theorem event_two_plain_listeners_calls_last_twice:
  "listeners two_listeners ''message'' = [PyFunc 1 False, PyFunc 2 False] \<and>
   ready (EventClient_event ''message'' d two_listeners) = [Lambda 0 d, Lambda 0 d] \<and>
   cells (EventClient_event ''message'' d two_listeners) = [Some (PyFunc 2 False)] \<and>
   calls (run_once E (EventClient_event ''message'' d two_listeners))
     = [(PyFunc 2 False, d), (PyFunc 2 False, d)]"
proof -
  have "calls (run_once E (EventClient_event ''message'' d two_listeners))
          = [(PyFunc 2 False, d), (PyFunc 2 False, d)]"
    by (simp add: pass_invokes two_listeners_state invoked_by_def)
  then show ?thesis
    by (simp add: two_listeners_state EventClient_event_eq sched_def)
qed

section \<open>A listener registered while a pass runs\<close>

lemma first_pass_state:
  "calls (run_once example_env (EventClient_event ''message'' d one_listener)) = [(PyFunc 0 False, d)]"
  "listeners (run_once example_env (EventClient_event ''message'' d one_listener)) ''message''
     = [PyFunc 0 False, PyFunc 1 False, PyFunc 2 False]"
  "ready (run_once example_env (EventClient_event ''message'' d one_listener)) = []"
  by (simp_all add: one_listener_def example_client_def Client_init_def add_cb_def
      callbacks_getitem_def EventClient_callbacks_def listeners_def run_once_def
      EventClient_event_def call_soon_def cell_get_def invoke_def example_env_def Let_def)

text \<open>
  C4 does not hold of the code. Function 0 is registered under \<^verbatim>\<open>message\<close>; when it runs
  it registers the plain functions 1 and 2 under the same name. The first pass invokes
  function 0 only, so the two functions registered during the pass are not invoked in it.
  The next pass finds the three of them and calls function 2 three times: function 1, which
  was registered during the first pass, is not invoked in the next one.
\<close>

theorem listener_added_during_pass_not_invoked_in_next:
  "calls (run_once example_env (EventClient_event ''message'' d one_listener))
     = [(PyFunc 0 False, d)] \<and>
   listeners (run_once example_env (EventClient_event ''message'' d one_listener)) ''message''
     = [PyFunc 0 False, PyFunc 1 False, PyFunc 2 False] \<and>
   calls (run_once example_env (EventClient_event ''message'' d
            (run_once example_env (EventClient_event ''message'' d one_listener))))
     = [(PyFunc 0 False, d), (PyFunc 2 False, d), (PyFunc 2 False, d), (PyFunc 2 False, d)] \<and>
   (PyFunc 1 False, d) \<notin> set (calls (run_once example_env (EventClient_event ''message'' d
            (run_once example_env (EventClient_event ''message'' d one_listener)))))"
  by (simp add: pass_invokes first_pass_state invoked_by_def)

end
